theory Spec2Isabelle
  imports Complex_Main
begin

section \<open>JavaScript values used by the handlers\<close>

text \<open>
  Numbers that the handlers format and parse are integers here; a \<open>num\<close> of \<open>None\<close>
  is JavaScript's \<open>NaN\<close>, which every arithmetic operation propagates.
\<close>

type_synonym num = "int option"

definition num_add :: "num \<Rightarrow> num \<Rightarrow> num" where
  "num_add a b = (case a of None \<Rightarrow> None | Some x \<Rightarrow> (case b of None \<Rightarrow> None | Some y \<Rightarrow> Some (x + y)))"

definition num_mul :: "num \<Rightarrow> int \<Rightarrow> num" where
  "num_mul a k = (case a of None \<Rightarrow> None | Some x \<Rightarrow> Some (x * k))"

text \<open>The remainder operator \<open>%\<close> of JavaScript takes the sign of the dividend.\<close>

definition js_rem :: "int \<Rightarrow> int \<Rightarrow> int" where
  "js_rem a b = sgn a * (\<bar>a\<bar> mod \<bar>b\<bar>)"

subsection \<open>Number.prototype.toString and String.prototype.padStart\<close>

definition digit_char :: "nat \<Rightarrow> char" where
  "digit_char d = char_of (48 + d)"

fun nat_digits :: "nat \<Rightarrow> string" where
  "nat_digits n = (if n < 10 then [digit_char n] else nat_digits (n div 10) @ [digit_char (n mod 10)])"

declare nat_digits.simps [simp del]

definition toString :: "int \<Rightarrow> string" where
  "toString i = (if i < 0 then CHR ''-'' # nat_digits (nat (- i)) else nat_digits (nat i))"

definition padStart :: "nat \<Rightarrow> char \<Rightarrow> string \<Rightarrow> string" where
  "padStart n c s = replicate (n - length s) c @ s"

subsection \<open>String.prototype.split on a separator character\<close>

fun split_on :: "char \<Rightarrow> string \<Rightarrow> string list" where
  "split_on c [] = [[]]"
| "split_on c (x # xs) =
     (if x = c then [] # split_on c xs
      else (x # hd (split_on c xs)) # tl (split_on c xs))"

subsection \<open>The Number conversion of a string\<close>

text \<open>
  \<open>Number\<close> on the strings a timestamp consists of: the empty string is 0, a run of
  decimal digits (leading zeros allowed) with an optional sign is its value, and every
  other string is \<open>None\<close>. Fractions, exponents, radix prefixes and surrounding white
  space, which \<open>Number\<close> also accepts, are outside this model.
\<close>

definition is_digit :: "char \<Rightarrow> bool" where
  "is_digit c = (48 \<le> (of_char c :: nat) \<and> (of_char c :: nat) \<le> 57)"

definition digit_val :: "char \<Rightarrow> nat" where
  "digit_val c = of_char c - 48"

definition digits_value :: "string \<Rightarrow> nat" where
  "digits_value s = foldl (\<lambda>acc c. 10 * acc + digit_val c) 0 s"

definition Number :: "string \<Rightarrow> num" where
  "Number s =
     (case s of
        [] \<Rightarrow> Some 0
      | c # r \<Rightarrow>
          if list_all is_digit s then Some (int (digits_value s))
          else if c = CHR ''-'' \<and> r \<noteq> [] \<and> list_all is_digit r then Some (- int (digits_value r))
          else if c = CHR ''+'' \<and> r \<noteq> [] \<and> list_all is_digit r then Some (int (digits_value r))
          else None)"

section \<open>Timestamps\<close>

subsection \<open>formatTimestamp (analyze-video)\<close>

definition formatTimestamp :: "int \<Rightarrow> string" where
  "formatTimestamp seconds =
     (let hrs = seconds div 3600;
          mins = js_rem seconds 3600 div 60;
          secs = js_rem seconds 60
      in padStart 2 (CHR ''0'') (toString hrs) @ '':'' @
         padStart 2 (CHR ''0'') (toString mins) @ '':'' @
         padStart 2 (CHR ''0'') (toString secs))"

subsection \<open>parseTimestamp (question panel) and handleTimestampClick (page)\<close>

definition parseTimestamp :: "string \<Rightarrow> num" where
  "parseTimestamp ts =
     (let parts = map Number (split_on (CHR '':'') ts)
      in if length parts = 3 then
           num_add (num_add (num_mul (parts ! 0) 3600) (num_mul (parts ! 1) 60)) (parts ! 2)
         else if length parts = 2 then
           num_add (num_mul (parts ! 0) 60) (parts ! 1)
         else Some 0)"

text \<open>The value \<open>handleTimestampClick\<close> passes to \<open>setSeekToTime\<close>.\<close>

definition handleTimestampClick :: "string \<Rightarrow> num" where
  "handleTimestampClick timestamp =
     (let parts = map Number (split_on (CHR '':'') timestamp);
          seconds = Some 0;
          seconds = (if length parts = 3 then
                       num_add (num_add (num_mul (parts ! 0) 3600) (num_mul (parts ! 1) 60)) (parts ! 2)
                     else if length parts = 2 then
                       num_add (num_mul (parts ! 0) 60) (parts ! 1)
                     else seconds)
      in seconds)"

section \<open>What the three handlers share\<close>

subsection \<open>Truthiness and the \<open>||\<close> defaults\<close>

text \<open>
  A field of a JSON object is \<open>None\<close> when it is absent (or \<open>null\<close>). JavaScript
  treats an absent field, the empty string and the number 0 as falsy.
\<close>

definition truthy_str :: "string option \<Rightarrow> bool" where
  "truthy_str v = (case v of None \<Rightarrow> False | Some s \<Rightarrow> s \<noteq> [])"

definition or_str :: "string option \<Rightarrow> string \<Rightarrow> string" where
  "or_str v d = (case v of None \<Rightarrow> d | Some s \<Rightarrow> if s = [] then d else s)"

definition or_num :: "int option \<Rightarrow> int \<Rightarrow> int" where
  "or_num v d = (case v of None \<Rightarrow> d | Some n \<Rightarrow> if n = 0 then d else n)"

definition or_null :: "string option \<Rightarrow> string option" where
  "or_null v = (case v of None \<Rightarrow> None | Some s \<Rightarrow> if s = [] then None else Some s)"

subsection \<open>Requests, responses and the environment\<close>

record filters =
  objectName :: "string option"
  minCount :: "int option"

text \<open>
  The JSON object of a request body, with the fields the handlers destructure from it.
\<close>

record request_json =
  videoId :: "string option"
  videoUrl :: "string option"
  title :: "string option"
  query :: "string option"
  question :: "string option"
  filters :: "filters option"

text \<open>
  A request is its method and what \<open>req.json()\<close> yields: \<open>Inl msg\<close> when reading the
  body throws an error with that message.
\<close>

record request =
  "method" :: string
  json :: "string + request_json"

text \<open>
  The reply of the AI gateway to the one \<open>fetch\<close> of a run. \<open>FetchFailed msg\<close> is a
  rejected \<open>fetch\<close>; \<open>HttpReply st payload\<close> is a response with status \<open>st\<close> whose
  payload is \<open>Inl msg\<close> when reading \<open>choices[0].message.content\<close> out of the body
  throws, and otherwise the content, \<open>None\<close> when the optional chain ends in
  \<open>undefined\<close>. The prompt is not modelled: the reply is an input of the run.
\<close>

datatype gateway_reply =
    FetchFailed string
  | HttpReply nat "string + string option"

definition response_ok :: "nat \<Rightarrow> bool" where
  "response_ok st = (200 \<le> st \<and> st \<le> 299)"

text \<open>
  The environment of one run: the configured key, the gateway's reply, the errors the
  database client reports for the single-row select, the other selects, the insert and
  the update (\<open>None\<close> for success), the identifiers the database generates for inserted
  rows and the values \<open>Math.random\<close> returns, in call order.
\<close>

record env =
  LOVABLE_API_KEY :: "string option"
  gateway :: gateway_reply
  single_error :: "string option"
  select_error :: "string option"
  insert_error :: "string option"
  update_error :: "string option"
  gen_random_uuid :: "nat \<Rightarrow> string"
  random :: "nat \<Rightarrow> rat"

subsection \<open>The regular expressions for a JSON array and a JSON object\<close>

text \<open>
  \<open>s.match(/\[[\s\S]*\]/)\<close> with \<open>l = [\<close> and \<open>r = ]\<close>, and
  \<open>s.match(/\{[\s\S]*\}/)\<close> with the braces: the leftmost \<open>l\<close> up to the last \<open>r\<close>
  after it, \<open>None\<close> when there is no such pair.
\<close>

definition match_between :: "char \<Rightarrow> char \<Rightarrow> string \<Rightarrow> string option" where
  "match_between l r s =
     (case dropWhile (\<lambda>c. c \<noteq> l) s of
        [] \<Rightarrow> None
      | _ # rest \<Rightarrow>
          (case rev (dropWhile (\<lambda>c. c \<noteq> r) (rev rest)) of
             [] \<Rightarrow> None
           | m \<Rightarrow> Some (l # m)))"

subsection \<open>The database\<close>

record video =
  id :: string
  title :: string
  filename :: string
  storage_path :: string
  duration_seconds :: "int option"
  status :: string

text \<open>
  A segment as the reply of the model describes it. The parsed reply is taken to be an
  array of objects whose fields, where present, have the types the prompt asks for,
  with a whole number of seconds as the timestamp; every field may be missing.
\<close>

record segment =
  timestamp_seconds :: "int option"
  description :: "string option"
  ocr_text :: "string option"
  detected_objects :: "(string \<times> int) list option"
  transcript :: "string option"

text \<open>A row of \<open>video_segments\<close> as analyze-video writes it.\<close>

record segment_record =
  video_id :: string
  timestamp_seconds :: int
  timestamp_display :: string
  description :: string
  ocr_text :: "string option"
  detected_objects :: "(string \<times> int) list"
  transcript :: "string option"
  embedding_text :: string
  confidence_score :: rat

record qa_record =
  video_id :: string
  question :: string
  answer :: string
  relevant_timestamps :: "string list"

text \<open>Rows of \<open>video_segments\<close> are stored with the identifier the database gave them.\<close>

record database =
  videos :: "video list"
  video_segments :: "(string \<times> segment_record) list"
  video_qa_history :: "qa_record list"

text \<open>
  A row that search-videos fetches: the stored row with its identifier, joined to its
  parent video.
\<close>

type_synonym segment_row = "(string \<times> segment_record) \<times> video"

subsection \<open>Responses\<close>

record ranking =
  index :: int
  relevance_score :: rat
  reason :: string

record search_result =
  id :: string
  video_id :: string
  video_title :: string
  video_path :: string
  timestamp_seconds :: int
  timestamp_display :: string
  description :: string
  transcript :: "string option"
  ocr_text :: "string option"
  detected_objects :: "(string \<times> int) list"
  relevance_score :: rat
  relevance_reason :: string

text \<open>
  The JSON bodies the handlers answer with: none for the CORS preflight, \<open>{error}\<close>,
  \<open>{success: true, segmentsCreated}\<close>, \<open>{results: [], message}\<close> with the fixed message
  "No indexed content found", \<open>{results}\<close> and \<open>{answer, relevant_timestamps}\<close>.
\<close>

datatype body =
    Preflight
  | Error string
  | Success nat
  | NoIndexedContent
  | Results "search_result list"
  | Answer string "string list"

record response =
  status :: nat
  body :: body

section \<open>analyze-video\<close>

subsection \<open>Segments from the reply\<close>

definition fallback_segments :: "string option \<Rightarrow> segment list" where
  "fallback_segments the_title =
     [\<lparr>segment.timestamp_seconds = Some 0,
       segment.description = Some ''Video introduction and opening sequence'',
       segment.ocr_text = the_title,
       segment.detected_objects = Some [(''person'', 1)],
       segment.transcript = Some ''Welcome to this video content''\<rparr>,
      \<lparr>segment.timestamp_seconds = Some 30,
       segment.description = Some ''Main content begins with key information'',
       segment.ocr_text = Some '''',
       segment.detected_objects = Some [(''text_overlay'', 1)],
       segment.transcript = Some ''Let me explain the main topic''\<rparr>,
      \<lparr>segment.timestamp_seconds = Some 60,
       segment.description = Some ''Detailed explanation and demonstration'',
       segment.ocr_text = Some '''',
       segment.detected_objects = Some [(''person'', 1)],
       segment.transcript = Some ''Here you can see how this works''\<rparr>,
      \<lparr>segment.timestamp_seconds = Some 120,
       segment.description = Some ''Summary and conclusion'',
       segment.ocr_text = Some ''Summary'',
       segment.detected_objects = Some [(''text_overlay'', 1)],
       segment.transcript = Some ''To wrap up, we covered the main points''\<rparr>]"

text \<open>
  The \<open>try\<close> block around the extraction. \<open>JSON_parse\<close> is the platform's parser on
  the matched text, \<open>None\<close> when it throws; calling \<open>match\<close> on a missing content throws
  as well, and every throw ends in the fallback list.
\<close>

definition parse_segments ::
  "(string \<Rightarrow> segment list option) \<Rightarrow> string option \<Rightarrow> string option \<Rightarrow> segment list" where
  "parse_segments JSON_parse the_title analysisContent =
     (case analysisContent of
        None \<Rightarrow> fallback_segments the_title
      | Some c \<Rightarrow>
          (case match_between (CHR ''['') (CHR '']'') c of
             None \<Rightarrow> fallback_segments the_title
           | Some m \<Rightarrow>
               (case JSON_parse m of
                  None \<Rightarrow> fallback_segments the_title
                | Some segments \<Rightarrow> segments)))"

subsection \<open>The rows to insert\<close>

definition is_space :: "char \<Rightarrow> bool" where
  "is_space c = ((of_char c :: nat) \<in> {9, 10, 11, 12, 13, 32})"

definition trim :: "string \<Rightarrow> string" where
  "trim s = rev (dropWhile is_space (rev (dropWhile is_space s)))"

definition segment_record_of :: "string \<Rightarrow> (nat \<Rightarrow> rat) \<Rightarrow> nat \<Rightarrow> segment \<Rightarrow> segment_record" where
  "segment_record_of vid rnd idx seg =
     \<lparr>segment_record.video_id = vid,
      segment_record.timestamp_seconds = or_num (segment.timestamp_seconds seg) (int idx * 30),
      timestamp_display = formatTimestamp (or_num (segment.timestamp_seconds seg) (int idx * 30)),
      segment_record.description = or_str (segment.description seg) ''Video segment'',
      segment_record.ocr_text = or_null (segment.ocr_text seg),
      segment_record.detected_objects =
        (case segment.detected_objects seg of None \<Rightarrow> [] | Some objs \<Rightarrow> objs),
      segment_record.transcript = or_null (segment.transcript seg),
      embedding_text = trim (or_str (segment.description seg) '''' @ '' '' @
                             or_str (segment.transcript seg) '''' @ '' '' @
                             or_str (segment.ocr_text seg) ''''),
      confidence_score = 85 / 100 + rnd idx * (15 / 100)\<rparr>"

definition segmentRecords :: "string \<Rightarrow> (nat \<Rightarrow> rat) \<Rightarrow> segment list \<Rightarrow> segment_record list" where
  "segmentRecords vid rnd segments =
     map (\<lambda>(idx, seg). segment_record_of vid rnd idx seg) (enumerate 0 segments)"

subsection \<open>The duration written to the video\<close>

text \<open>\<open>Math.max\<close> of no arguments is \<open>-Infinity\<close>, here \<open>None\<close>; the column then holds no number.\<close>

definition Math_max :: "int list \<Rightarrow> int option" where
  "Math_max xs = (case xs of [] \<Rightarrow> None | x # r \<Rightarrow> Some (fold max r x))"

definition duration_of :: "segment list \<Rightarrow> int option" where
  "duration_of segments =
     map_option (\<lambda>m. m + 30) (Math_max (map (\<lambda>s. or_num (segment.timestamp_seconds s) 0) segments))"

subsection \<open>The two writes\<close>

definition insert_segments :: "env \<Rightarrow> segment_record list \<Rightarrow> database \<Rightarrow> database" where
  "insert_segments e records db =
     db\<lparr>video_segments := video_segments db @
           zip (map (gen_random_uuid e) [0 ..< length records]) records\<rparr>"

definition update_video :: "string \<Rightarrow> int option \<Rightarrow> database \<Rightarrow> database" where
  "update_video vid duration db =
     db\<lparr>videos := map (\<lambda>v. if video.id v = vid
                             then v\<lparr>video.status := ''ready'', duration_seconds := duration\<rparr>
                             else v) (videos db)\<rparr>"

subsection \<open>The handler\<close>

text \<open>
  The body of the \<open>try\<close> block: \<open>Inl msg\<close> is a thrown error with its message, \<open>Inr n\<close>
  the number of rows created. The database is returned as the run leaves it.
\<close>

definition analyze_try ::
  "env \<Rightarrow> (string \<Rightarrow> segment list option) \<Rightarrow> database \<Rightarrow> request \<Rightarrow> (string + nat) \<times> database" where
  "analyze_try e JSON_parse db req =
     (case json req of
        Inl msg \<Rightarrow> (Inl msg, db)
      | Inr b \<Rightarrow>
          if \<not> truthy_str (videoId b) \<or> \<not> truthy_str (videoUrl b) then
            (Inl ''Missing videoId or videoUrl'', db)
          else if \<not> truthy_str (LOVABLE_API_KEY e) then
            (Inl ''LOVABLE_API_KEY is not configured'', db)
          else
            (case gateway e of
               FetchFailed msg \<Rightarrow> (Inl msg, db)
             | HttpReply st payload \<Rightarrow>
                 if \<not> response_ok st then
                   (if st = 429 then (Inl ''Rate limited. Please try again later.'', db)
                    else if st = 402 then
                      (Inl ''Payment required. Please add funds to your workspace.'', db)
                    else (Inl (''AI gateway error: '' @ toString (int st)), db))
                 else
                   (case payload of
                      Inl msg \<Rightarrow> (Inl msg, db)
                    | Inr analysisContent \<Rightarrow>
                        (let segments = parse_segments JSON_parse (request_json.title b) analysisContent;
                             records = segmentRecords (or_str (videoId b) '''') (random e) segments
                         in case insert_error e of
                              Some msg \<Rightarrow> (Inl msg, db)
                            | None \<Rightarrow>
                                (let db1 = insert_segments e records db
                                 in case update_error e of
                                      Some msg \<Rightarrow> (Inl msg, db1)
                                    | None \<Rightarrow>
                                        (Inr (length records),
                                         update_video (or_str (videoId b) '''') (duration_of segments) db1))))))"

definition analyze_video ::
  "env \<Rightarrow> (string \<Rightarrow> segment list option) \<Rightarrow> database \<Rightarrow> request \<Rightarrow> response \<times> database" where
  "analyze_video e JSON_parse db req =
     (if method req = ''OPTIONS'' then (\<lparr>status = 200, body = Preflight\<rparr>, db)
      else (case analyze_try e JSON_parse db req of
              (Inl msg, db') \<Rightarrow> (\<lparr>status = 500, body = Error msg\<rparr>, db')
            | (Inr n, db') \<Rightarrow> (\<lparr>status = 200, body = Success n\<rparr>, db')))"

section \<open>search-videos\<close>

subsection \<open>The rows searched\<close>

text \<open>
  \<open>video_segments\<close> joined to \<open>videos\<close> (inner join), restricted to ready videos and, when
  the request names a video, to its rows.
\<close>

definition select_segments :: "database \<Rightarrow> string option \<Rightarrow> segment_row list" where
  "select_segments db vid =
     (let rows =
            concat (map (\<lambda>(rid, s).
               (case find (\<lambda>v. video.id v = segment_record.video_id s) (videos db) of
                  None \<Rightarrow> []
                | Some v \<Rightarrow> if video.status v = ''ready'' then [((rid, s), v)] else []))
             (video_segments db))
      in if truthy_str vid
         then filter (\<lambda>row. segment_record.video_id (snd (fst row)) = or_str vid '''') rows
         else rows)"

subsection \<open>String operations of the fallback scorer\<close>

text \<open>Strings are ASCII here: \<open>toLowerCase\<close> maps A to Z only.\<close>

definition toLowerCase :: "string \<Rightarrow> string" where
  "toLowerCase s =
     map (\<lambda>c. if 65 \<le> (of_char c :: nat) \<and> (of_char c :: nat) \<le> 90
              then char_of ((of_char c :: nat) + 32) else c) s"

fun includes_str :: "string \<Rightarrow> string \<Rightarrow> bool" where
  "includes_str [] w = (w = [])"
| "includes_str (c # cs) w = (take (length w) (c # cs) = w \<or> includes_str cs w)"

text \<open>
  \<open>s.split(/\s+/)\<close>: every maximal run of white space separates two parts, so white
  space at either end of the string yields an empty part there.
\<close>

function split_ws :: "string \<Rightarrow> string list" where
  "split_ws [] = [[]]"
| "split_ws (c # cs) =
     (if is_space c then [] # split_ws (dropWhile is_space cs)
      else (c # hd (split_ws cs)) # tl (split_ws cs))"
  by pat_completeness auto
termination
  by (relation "measure length") (auto simp: length_dropWhile_le less_Suc_eq_le)

subsection \<open>Rankings from the reply\<close>

definition segment_text :: "segment_row \<Rightarrow> string" where
  "segment_text seg =
     toLowerCase (segment_record.description (snd (fst seg)) @ '' '' @
                  or_str (segment_record.transcript (snd (fst seg))) '''' @ '' '' @
                  or_str (segment_record.ocr_text (snd (fst seg))) '''')"

definition fallback_ranking :: "string \<Rightarrow> nat \<Rightarrow> segment_row \<Rightarrow> ranking" where
  "fallback_ranking q idx seg =
     (let text = segment_text seg;
          queryLower = toLowerCase q;
          words = split_ws queryLower;
          matches = length (filter (\<lambda>w. includes_str text w) words)
      in \<lparr>index = int idx,
          ranking.relevance_score = rat_of_nat matches / rat_of_nat (length words),
          reason = ''Keyword matching fallback''\<rparr>)"

text \<open>
  The comparator \<open>(a, b) => b.relevance_score - a.relevance_score\<close> under the stable
  \<open>Array.prototype.sort\<close> is a stable sort on the negated score.
\<close>

definition fallback_rankings :: "string \<Rightarrow> segment_row list \<Rightarrow> ranking list" where
  "fallback_rankings q segments =
     take 10
       (sort_key (\<lambda>r. - ranking.relevance_score r)
          (filter (\<lambda>r. 3 / 10 < ranking.relevance_score r)
             (map (\<lambda>(idx, seg). fallback_ranking q idx seg) (enumerate 0 segments))))"

text \<open>
  The \<open>try\<close> block: \<open>match\<close> on a missing content throws and \<open>JSON.parse\<close> may throw
  (\<open>None\<close>), and the \<open>catch\<close> computes the fallback; when nothing matches, nothing is
  thrown and \<open>rankings\<close> keeps its initial value, the empty list.
\<close>

definition parse_rankings ::
  "(string \<Rightarrow> ranking list option) \<Rightarrow> string \<Rightarrow> segment_row list \<Rightarrow> string option \<Rightarrow> ranking list" where
  "parse_rankings JSON_parse q segments rankingContent =
     (case rankingContent of
        None \<Rightarrow> fallback_rankings q segments
      | Some c \<Rightarrow>
          (case match_between (CHR ''['') (CHR '']'') c of
             None \<Rightarrow> []
           | Some m \<Rightarrow>
               (case JSON_parse m of
                  None \<Rightarrow> fallback_rankings q segments
                | Some rankings \<Rightarrow> rankings)))"

subsection \<open>The object filter\<close>

text \<open>\<open>segments[rank.index]\<close>, \<open>None\<close> for \<open>undefined\<close>.\<close>

definition array_get :: "'a list \<Rightarrow> int \<Rightarrow> 'a option" where
  "array_get xs i = (if 0 \<le> i \<and> i < int (length xs) then Some (xs ! nat i) else None)"

text \<open>
  The names of the properties that every plain object inherits from
  \<open>Object.prototype\<close>. Reading one of them from an object that has no entry of its own
  under that name yields a function (or, for \<open>__proto__\<close>, the prototype object) where
  an entry would yield a number.
\<close>

definition Object_prototype_names :: "string list" where
  "Object_prototype_names =
     [''constructor'', ''__defineGetter__'', ''__defineSetter__'', ''hasOwnProperty'',
      ''__lookupGetter__'', ''__lookupSetter__'', ''isPrototypeOf'', ''propertyIsEnumerable'',
      ''toString'', ''valueOf'', ''__proto__'', ''toLocaleString'']"

text \<open>
  \<open>objects[filters.objectName] || 0\<close>: the entry of the row's own under the name (0 when
  that entry is 0), else 0 when nothing is inherited under the name, else the inherited
  function or object, here \<open>None\<close>: it is truthy, so the default is not taken, and it
  is not a number.
\<close>

definition object_count :: "segment_row \<Rightarrow> string \<Rightarrow> num" where
  "object_count seg name =
     (case map_of (segment_record.detected_objects (snd (fst seg))) name of
        Some n \<Rightarrow> Some (or_num (Some n) 0)
      | None \<Rightarrow> if name \<in> set Object_prototype_names then None else Some 0)"

text \<open>
  \<open>count >= m\<close>: a count that is not a number converts to \<open>NaN\<close>, and every comparison
  with \<open>NaN\<close> is false.
\<close>

definition num_ge :: "num \<Rightarrow> int \<Rightarrow> bool" where
  "num_ge count m = (case count of None \<Rightarrow> False | Some c \<Rightarrow> m \<le> c)"

text \<open>
  The callback of \<open>rankings.filter\<close> reads a property of \<open>segments[rank.index]\<close>, which
  throws a TypeError when the index addresses no row.
\<close>

fun filter_rankings :: "string \<Rightarrow> int option \<Rightarrow> segment_row list \<Rightarrow> ranking list \<Rightarrow> string + ranking list" where
  "filter_rankings name minc segments [] = Inr []"
| "filter_rankings name minc segments (rank # rest) =
     (case array_get segments (index rank) of
        None \<Rightarrow> Inl ''Cannot read properties of undefined (reading detected_objects)''
      | Some seg \<Rightarrow>
          (case filter_rankings name minc segments rest of
             Inl msg \<Rightarrow> Inl msg
           | Inr kept \<Rightarrow>
               Inr (if num_ge (object_count seg name) (or_num minc 1) then rank # kept else kept)))"

definition apply_object_filter ::
  "filters option \<Rightarrow> segment_row list \<Rightarrow> ranking list \<Rightarrow> string + ranking list" where
  "apply_object_filter fs segments rankings =
     (case fs of
        None \<Rightarrow> Inr rankings
      | Some f \<Rightarrow>
          if truthy_str (objectName f)
          then filter_rankings (or_str (objectName f) '''') (minCount f) segments rankings
          else Inr rankings)"

subsection \<open>The results\<close>

definition result_of :: "ranking \<Rightarrow> segment_row \<Rightarrow> search_result" where
  "result_of rank seg =
     \<lparr>search_result.id = fst (fst seg),
      search_result.video_id = segment_record.video_id (snd (fst seg)),
      video_title = video.title (snd seg),
      video_path = storage_path (snd seg),
      search_result.timestamp_seconds = segment_record.timestamp_seconds (snd (fst seg)),
      search_result.timestamp_display = segment_record.timestamp_display (snd (fst seg)),
      search_result.description = segment_record.description (snd (fst seg)),
      search_result.transcript = segment_record.transcript (snd (fst seg)),
      search_result.ocr_text = segment_record.ocr_text (snd (fst seg)),
      search_result.detected_objects = segment_record.detected_objects (snd (fst seg)),
      search_result.relevance_score = ranking.relevance_score rank,
      relevance_reason = reason rank\<rparr>"

fun build_results :: "segment_row list \<Rightarrow> ranking list \<Rightarrow> string + search_result list" where
  "build_results segments [] = Inr []"
| "build_results segments (rank # rest) =
     (case array_get segments (index rank) of
        None \<Rightarrow> Inl ''Cannot read properties of undefined (reading id)''
      | Some seg \<Rightarrow>
          (case build_results segments rest of
             Inl msg \<Rightarrow> Inl msg
           | Inr rs \<Rightarrow> Inr (result_of rank seg # rs)))"

subsection \<open>The handler\<close>

text \<open>
  The body of the \<open>try\<close> block: \<open>Inl msg\<close> is a thrown error, \<open>Inr r\<close> a returned
  response. The handler writes nothing.
\<close>

definition search_try ::
  "env \<Rightarrow> (string \<Rightarrow> ranking list option) \<Rightarrow> database \<Rightarrow> request \<Rightarrow> string + response" where
  "search_try e JSON_parse db req =
     (case json req of
        Inl msg \<Rightarrow> Inl msg
      | Inr b \<Rightarrow>
          if \<not> truthy_str (query b) then Inl ''Missing search query''
          else if \<not> truthy_str (LOVABLE_API_KEY e) then Inl ''LOVABLE_API_KEY is not configured''
          else
            (case select_error e of
               Some msg \<Rightarrow> Inl msg
             | None \<Rightarrow>
                 (let segments = select_segments db (videoId b)
                  in if segments = [] then Inr \<lparr>status = 200, body = NoIndexedContent\<rparr>
                     else
                       (case gateway e of
                          FetchFailed msg \<Rightarrow> Inl msg
                        | HttpReply st payload \<Rightarrow>
                            if \<not> response_ok st then
                              (if st = 429 then
                                 Inr \<lparr>status = 429, body = Error ''Rate limited. Please try again later.''\<rparr>
                               else if st = 402 then
                                 Inr \<lparr>status = 402, body = Error ''Payment required. Please add funds.''\<rparr>
                               else Inl (''AI gateway error: '' @ toString (int st)))
                            else
                              (case payload of
                                 Inl msg \<Rightarrow> Inl msg
                               | Inr rankingContent \<Rightarrow>
                                   (let rankings = parse_rankings JSON_parse (or_str (query b) '''')
                                                     segments rankingContent
                                    in case apply_object_filter (filters b) segments rankings of
                                         Inl msg \<Rightarrow> Inl msg
                                       | Inr rankings' \<Rightarrow>
                                           (case build_results segments rankings' of
                                              Inl msg \<Rightarrow> Inl msg
                                            | Inr results \<Rightarrow>
                                                Inr \<lparr>status = 200, body = Results results\<rparr>)))))))"

definition search_videos ::
  "env \<Rightarrow> (string \<Rightarrow> ranking list option) \<Rightarrow> database \<Rightarrow> request \<Rightarrow> response" where
  "search_videos e JSON_parse db req =
     (if method req = ''OPTIONS'' then \<lparr>status = 200, body = Preflight\<rparr>
      else (case search_try e JSON_parse db req of
              Inl msg \<Rightarrow> \<lparr>status = 500, body = Error msg\<rparr>
            | Inr r \<Rightarrow> r))"

section \<open>video-qa\<close>

text \<open>The object the reply is parsed to; either field may be missing.\<close>

record qa_parsed =
  answer :: "string option"
  relevant_timestamps :: "string list option"

text \<open>
  \<open>answer\<close> starts as the content and \<open>relevantTimestamps\<close> as the empty list; both are
  assigned only after \<open>JSON.parse\<close> has returned.
\<close>

definition parse_answer :: "(string \<Rightarrow> qa_parsed option) \<Rightarrow> string \<Rightarrow> string \<times> string list" where
  "parse_answer JSON_parse content =
     (case match_between (CHR ''{'') (CHR ''}'') content of
        None \<Rightarrow> (content, [])
      | Some m \<Rightarrow>
          (case JSON_parse m of
             None \<Rightarrow> (content, [])
           | Some parsed \<Rightarrow>
               (or_str (qa_parsed.answer parsed) content,
                (case qa_parsed.relevant_timestamps parsed of None \<Rightarrow> [] | Some ts \<Rightarrow> ts))))"

text \<open>\<open>.single()\<close> reports an error unless exactly one row matches.\<close>

definition select_video :: "env \<Rightarrow> database \<Rightarrow> string \<Rightarrow> video option" where
  "select_video e db vid =
     (case single_error e of
        Some msg \<Rightarrow> None
      | None \<Rightarrow>
          (case filter (\<lambda>v. video.id v = vid) (videos db) of
             [v] \<Rightarrow> Some v
           | _ \<Rightarrow> None))"

text \<open>A failed insert into the history is logged and nothing else.\<close>

definition insert_history :: "env \<Rightarrow> qa_record \<Rightarrow> database \<Rightarrow> database" where
  "insert_history e r db =
     (case insert_error e of
        Some msg \<Rightarrow> db
      | None \<Rightarrow> db\<lparr>video_qa_history := video_qa_history db @ [r]\<rparr>)"

definition qa_try ::
  "env \<Rightarrow> (string \<Rightarrow> qa_parsed option) \<Rightarrow> database \<Rightarrow> request \<Rightarrow> (string + response) \<times> database" where
  "qa_try e JSON_parse db req =
     (case json req of
        Inl msg \<Rightarrow> (Inl msg, db)
      | Inr b \<Rightarrow>
          if \<not> truthy_str (request_json.question b) \<or> \<not> truthy_str (videoId b) then
            (Inl ''Missing question or videoId'', db)
          else if \<not> truthy_str (LOVABLE_API_KEY e) then
            (Inl ''LOVABLE_API_KEY is not configured'', db)
          else
            (case select_video e db (or_str (videoId b) '''') of
               None \<Rightarrow> (Inl ''Video not found'', db)
             | Some v \<Rightarrow>
                 (case select_error e of
                    Some msg \<Rightarrow> (Inl msg, db)
                  | None \<Rightarrow>
                      (case gateway e of
                         FetchFailed msg \<Rightarrow> (Inl msg, db)
                       | HttpReply st payload \<Rightarrow>
                           if \<not> response_ok st then
                             (if st = 429 then
                                (Inr \<lparr>status = 429, body = Error ''Rate limited. Please try again later.''\<rparr>, db)
                              else if st = 402 then
                                (Inr \<lparr>status = 402, body = Error ''Payment required. Please add funds.''\<rparr>, db)
                              else (Inl (''AI gateway error: '' @ toString (int st)), db))
                           else
                             (case payload of
                                Inl msg \<Rightarrow> (Inl msg, db)
                              | Inr c \<Rightarrow>
                                  (let content = or_str c '''';
                                       (ans, relevantTimestamps) = parse_answer JSON_parse content
                                   in (Inr \<lparr>status = 200, body = Answer ans relevantTimestamps\<rparr>,
                                       insert_history e
                                         \<lparr>qa_record.video_id = or_str (videoId b) '''',
                                          qa_record.question = or_str (request_json.question b) '''',
                                          qa_record.answer = ans,
                                          qa_record.relevant_timestamps = relevantTimestamps\<rparr> db)))))))"

definition video_qa ::
  "env \<Rightarrow> (string \<Rightarrow> qa_parsed option) \<Rightarrow> database \<Rightarrow> request \<Rightarrow> response \<times> database" where
  "video_qa e JSON_parse db req =
     (if method req = ''OPTIONS'' then (\<lparr>status = 200, body = Preflight\<rparr>, db)
      else (case qa_try e JSON_parse db req of
              (Inl msg, db') \<Rightarrow> (\<lparr>status = 500, body = Error msg\<rparr>, db')
            | (Inr r, db') \<Rightarrow> (r, db')))"

section \<open>Sample data\<close>

text \<open>
  A freshly uploaded video titled "Demo", and a ready video with three analysed rows
  of which only the first mentions a person.
\<close>

definition demo_video :: video where
  "demo_video =
     \<lparr>video.id = ''v1'', video.title = ''Demo'', filename = ''demo.mp4'',
      storage_path = ''uploads/demo.mp4'', duration_seconds = None,
      video.status = ''processing''\<rparr>"

definition demo_db :: database where
  "demo_db = \<lparr>videos = [demo_video], video_segments = [], video_qa_history = []\<rparr>"

definition street_row :: "int \<Rightarrow> string \<Rightarrow> (string \<times> int) list \<Rightarrow> segment_record" where
  "street_row t d objs =
     \<lparr>segment_record.video_id = ''v2'', segment_record.timestamp_seconds = t,
      segment_record.timestamp_display = formatTimestamp t, segment_record.description = d,
      segment_record.ocr_text = None, segment_record.detected_objects = objs,
      segment_record.transcript = None, embedding_text = d, confidence_score = 9 / 10\<rparr>"

definition street_db :: database where
  "street_db =
     \<lparr>videos = [\<lparr>video.id = ''v2'', video.title = ''Street'', filename = ''street.mp4'',
                  storage_path = ''uploads/street.mp4'', duration_seconds = Some 90,
                  video.status = ''ready''\<rparr>],
      video_segments =
        [(''s0'', street_row 0 ''A person waits next to a parked car'' [(''person'', 1), (''car'', 1)]),
         (''s1'', street_row 30 ''Two cars drive past'' [(''car'', 2)]),
         (''s2'', street_row 60 ''The street is empty'' [])],
      video_qa_history = []\<rparr>"

definition post :: "request_json \<Rightarrow> request" where
  "post b = \<lparr>method = ''POST'', json = Inr b\<rparr>"

definition analyze_request :: request where
  "analyze_request =
     post \<lparr>videoId = Some ''v1'', videoUrl = Some ''https://host/demo.mp4'',
           request_json.title = Some ''Demo'', query = None,
           request_json.question = None, filters = None\<rparr>"

definition search_request :: "filters option \<Rightarrow> request" where
  "search_request fs =
     post \<lparr>videoId = None, videoUrl = None, request_json.title = None,
           query = Some ''person'', request_json.question = None, filters = fs\<rparr>"

definition qa_request :: request where
  "qa_request =
     post \<lparr>videoId = Some ''v2'', videoUrl = None, request_json.title = None,
           query = None, request_json.question = Some ''Who is there?'', filters = None\<rparr>"

definition empty_request :: request where
  "empty_request =
     post \<lparr>videoId = None, videoUrl = None, request_json.title = None,
           query = None, request_json.question = None, filters = None\<rparr>"

text \<open>A parser that throws on every text, and a \<open>Math.random\<close> that always returns 0.5.\<close>

definition JSON_parse_throws :: "string \<Rightarrow> 'a option" where
  "JSON_parse_throws s = None"

definition half :: "nat \<Rightarrow> rat" where
  "half n = 1 / 2"

text \<open>An environment in which the database client reports no error.\<close>

definition demo_env :: "string option \<Rightarrow> gateway_reply \<Rightarrow> env" where
  "demo_env k g =
     \<lparr>LOVABLE_API_KEY = k, gateway = g, single_error = None, select_error = None,
      insert_error = None, update_error = None,
      gen_random_uuid = (\<lambda>n. ''row-'' @ toString (int n)), random = half\<rparr>"

text \<open>What \<open>JSON.parse\<close> returns on the text of two empty objects in an array.\<close>

definition parse_two_objects :: "string \<Rightarrow> segment list option" where
  "parse_two_objects s =
     (if s = ''[{},{}]''
      then Some (replicate 2 \<lparr>segment.timestamp_seconds = None, segment.description = None,
                   segment.ocr_text = None, segment.detected_objects = None,
                   segment.transcript = None\<rparr>)
      else None)"

section \<open>Timestamps survive formatting and parsing\<close>

lemma is_digit_digit_char: "d < 10 \<Longrightarrow> is_digit (digit_char d)"
  by (simp add: is_digit_def digit_char_def)

lemma digit_val_digit_char: "d < 10 \<Longrightarrow> digit_val (digit_char d) = d"
  by (simp add: digit_val_def digit_char_def)

lemma nat_digits_all: "list_all is_digit (nat_digits n)"
  by (induction n rule: nat_digits.induct) (subst nat_digits.simps, simp add: is_digit_digit_char)

lemma nat_digits_nonempty: "nat_digits n \<noteq> []"
  by (subst nat_digits.simps) simp

lemma digits_value_snoc: "digits_value (s @ [c]) = 10 * digits_value s + digit_val c"
  by (simp add: digits_value_def)

lemma digits_value_nat_digits: "digits_value (nat_digits n) = n"
proof (induction n rule: nat_digits.induct)
  case (1 n)
  show ?case
  proof (cases "n < 10")
    case True
    then show ?thesis
      by (subst nat_digits.simps) (simp add: digits_value_def digit_val_digit_char)
  next
    case False
    with 1 show ?thesis
      by (subst nat_digits.simps) (simp add: digits_value_snoc digit_val_digit_char)
  qed
qed

lemma digits_value_zeros: "digits_value (replicate k (CHR ''0'') @ s) = digits_value s"
proof -
  have "foldl (\<lambda>acc c. 10 * acc + digit_val c) 0 (replicate k (CHR ''0'')) = 0"
    by (induction k) (simp_all add: digit_val_def)
  then show ?thesis by (simp add: digits_value_def)
qed

lemma Number_digits:
  "s \<noteq> [] \<Longrightarrow> list_all is_digit s \<Longrightarrow> Number s = Some (int (digits_value s))"
  by (cases s) (simp_all add: Number_def)

lemma pad_all: "list_all is_digit s \<Longrightarrow> list_all is_digit (padStart 2 (CHR ''0'') s)"
  by (auto simp: padStart_def is_digit_def list_all_iff)

lemma Number_pad_toString:
  assumes "0 \<le> i"
  shows "Number (padStart 2 (CHR ''0'') (toString i)) = Some i"
proof -
  let ?s = "padStart 2 (CHR ''0'') (toString i)"
  have ts: "toString i = nat_digits (nat i)"
    using assms by (simp add: toString_def)
  have "?s \<noteq> []"
    by (simp add: padStart_def ts nat_digits_nonempty)
  moreover have "list_all is_digit ?s"
    by (simp add: ts pad_all nat_digits_all)
  ultimately have "Number ?s = Some (int (digits_value ?s))"
    by (rule Number_digits)
  also have "digits_value ?s = nat i"
    by (simp add: padStart_def ts digits_value_zeros digits_value_nat_digits)
  finally show ?thesis using assms by simp
qed

lemma colon_not_digit: "list_all is_digit s \<Longrightarrow> CHR '':'' \<notin> set s"
  by (auto simp: list_all_iff is_digit_def)

lemma split_on_prefix: "c \<notin> set a \<Longrightarrow> split_on c (a @ c # b) = a # split_on c b"
  by (induction a) auto

lemma split_on_none: "c \<notin> set a \<Longrightarrow> split_on c a = [a]"
  by (induction a) auto

lemma format_shape:
  "formatTimestamp S =
     padStart 2 (CHR ''0'') (toString (S div 3600)) @ CHR '':'' #
     padStart 2 (CHR ''0'') (toString (js_rem S 3600 div 60)) @ CHR '':'' #
     padStart 2 (CHR ''0'') (toString (js_rem S 60))"
  by (simp add: formatTimestamp_def Let_def)

lemma pad_no_colon: "0 \<le> i \<Longrightarrow> CHR '':'' \<notin> set (padStart 2 (CHR ''0'') (toString i))"
  by (rule colon_not_digit) (simp add: toString_def pad_all nat_digits_all)

lemma hms_nonneg:
  assumes "0 \<le> (S::int)"
  shows "0 \<le> S div 3600" and "0 \<le> S mod 3600 div 60" and "0 \<le> S mod 60"
  using assms by (simp_all add: pos_imp_zdiv_nonneg_iff)

lemma js_rem_nonneg: "0 \<le> a \<Longrightarrow> 0 < b \<Longrightarrow> js_rem a b = a mod b"
  by (simp add: js_rem_def sgn_if)

lemma split_format:
  assumes "0 \<le> S"
  shows "split_on (CHR '':'') (formatTimestamp S) =
     [padStart 2 (CHR ''0'') (toString (S div 3600)),
      padStart 2 (CHR ''0'') (toString (S mod 3600 div 60)),
      padStart 2 (CHR ''0'') (toString (S mod 60))]"
  unfolding format_shape
  by (simp add: js_rem_nonneg assms split_on_prefix split_on_none pad_no_colon hms_nonneg)

lemma parts_format:
  assumes "0 \<le> S"
  shows "map Number (split_on (CHR '':'') (formatTimestamp S)) =
     [Some (S div 3600), Some (S mod 3600 div 60), Some (S mod 60)]"
  by (simp add: split_format assms Number_pad_toString hms_nonneg)

lemma hms_sum: "(S::int) div 3600 * 3600 + S mod 3600 div 60 * 60 + S mod 60 = S"
proof -
  have a: "S mod 3600 mod 60 = S mod 60"
    by (simp add: mod_mod_cancel)
  have b: "S mod 3600 = S mod 3600 div 60 * 60 + S mod 3600 mod 60"
    by simp
  have c: "S = S div 3600 * 3600 + S mod 3600"
    by simp
  show ?thesis
    using a b c by linarith
qed

lemma td1: "n < 10 \<Longrightarrow> nat_digits n = [digit_char n]"
  by (subst nat_digits.simps) simp

lemma two_digits: "n < 100 \<Longrightarrow> length (padStart 2 (CHR ''0'') (nat_digits n)) = 2"
proof -
  assume n: "n < 100"
  show ?thesis
  proof (cases "n < 10")
    case True
    then show ?thesis
      by (simp add: td1 padStart_def)
  next
    case False
    have "nat_digits n = nat_digits (n div 10) @ [digit_char (n mod 10)]"
      using False by (subst nat_digits.simps) simp
    moreover have "nat_digits (n div 10) = [digit_char (n div 10)]"
      using n by (intro td1) simp
    ultimately show ?thesis by (simp add: padStart_def)
  qed
qed

lemma format_length:
  assumes "0 \<le> S" and "S < 24 * 3600"
  shows "length (formatTimestamp S) = 8"
proof -
  have h: "nat (S div 3600) < 100" using assms by simp
  have m: "nat (S mod 3600 div 60) < 100" using assms by simp
  have s: "nat (S mod 60) < 100"
    using pos_mod_bound [of 60 S] by simp
  have ts: "toString (S div 3600) = nat_digits (nat (S div 3600))"
      "toString (S mod 3600 div 60) = nat_digits (nat (S mod 3600 div 60))"
      "toString (S mod 60) = nat_digits (nat (S mod 60))"
    using hms_nonneg [OF assms(1)] by (simp_all add: toString_def)
  have "formatTimestamp S =
     padStart 2 (CHR ''0'') (nat_digits (nat (S div 3600))) @ CHR '':'' #
     padStart 2 (CHR ''0'') (nat_digits (nat (S mod 3600 div 60))) @ CHR '':'' #
     padStart 2 (CHR ''0'') (nat_digits (nat (S mod 60)))"
    by (simp add: format_shape js_rem_nonneg assms ts)
  then show ?thesis
    by (simp add: two_digits h m s)
qed

text \<open>
  C3. For every whole number of seconds \<open>S\<close> with \<open>0 \<le> S < 24 * 3600\<close>, the server's
  \<open>formatTimestamp\<close> yields the eight characters of \<open>HH:MM:SS\<close>, and both colon-split
  parsers of the client, \<open>parseTimestamp\<close> and \<open>handleTimestampClick\<close>, read \<open>S\<close> back
  from them.
\<close>

theorem timestamp_roundtrip:
  assumes "0 \<le> S" and "S < 24 * 3600"
  shows "length (formatTimestamp S) = 8 \<and>
         parseTimestamp (formatTimestamp S) = Some S \<and>
         handleTimestampClick (formatTimestamp S) = Some S"
  using format_length [OF assms]
  by (simp add: parseTimestamp_def handleTimestampClick_def parts_format assms
      num_add_def num_mul_def hms_sum)

theorem timestamp_roundtrip_witness:
  "formatTimestamp 3725 = ''01:02:05'' \<and>
   parseTimestamp ''01:02:05'' = Some 3725 \<and>
   handleTimestampClick ''01:02:05'' = Some 3725"
proof -
  have f: "formatTimestamp 3725 = ''01:02:05''"
    by code_simp
  from timestamp_roundtrip [of 3725] f show ?thesis
    by simp
qed

section \<open>analyze-video: segments, rows and duration\<close>

lemma demo_env_simps:
  "LOVABLE_API_KEY (demo_env k g) = k" "gateway (demo_env k g) = g"
  "insert_error (demo_env k g) = None" "update_error (demo_env k g) = None"
  "select_error (demo_env k g) = None" "single_error (demo_env k g) = None"
  "random (demo_env k g) = half"
  by (simp_all add: demo_env_def)

lemma post_simps: "method (post b) = ''POST''" "json (post b) = Inr b"
  by (simp_all add: post_def)

lemma parse_segments_fallback:
  assumes "content = None \<or> (\<exists>c. content = Some c \<and> (match_between (CHR ''['') (CHR '']'') c = None \<or>
            (\<exists>m. match_between (CHR ''['') (CHR '']'') c = Some m \<and> JSON_parse m = None)))"
  shows "parse_segments JSON_parse t content = fallback_segments t"
  using assms by (auto simp: parse_segments_def)

lemma enumerate4: "enumerate 0 [a, b, c, d] = [(0, a), (1, b), (2, c), (3, d)]"
  by (simp add: enumerate_eq_zip upt_rec)

lemma fallback_timestamps:
  "map segment_record.timestamp_seconds (segmentRecords v r (fallback_segments t)) = [0, 30, 60, 120]"
  by (simp add: segmentRecords_def fallback_segments_def enumerate4 segment_record_of_def or_num_def)

lemma fallback_length: "length (segmentRecords v r (fallback_segments t)) = 4"
  by (simp add: segmentRecords_def fallback_segments_def)

lemma analyze_try_reply:
  assumes "json req = Inr b"
    and "truthy_str (videoId b)" and "truthy_str (videoUrl b)"
    and "truthy_str (LOVABLE_API_KEY e)"
    and "gateway e = HttpReply st (Inr content)" and "response_ok st"
  shows "analyze_try e JSON_parse db req =
      (let segments = parse_segments JSON_parse (request_json.title b) content;
           records = segmentRecords (or_str (videoId b) '''') (random e) segments
       in case insert_error e of
            Some msg \<Rightarrow> (Inl msg, db)
          | None \<Rightarrow>
              (case update_error e of
                 Some msg \<Rightarrow> (Inl msg, insert_segments e records db)
               | None \<Rightarrow> (Inr (length records),
                    update_video (or_str (videoId b) '''') (duration_of segments)
                      (insert_segments e records db))))"
  using assms by (simp add: analyze_try_def Let_def split: option.splits)

text \<open>
  C1. Take a request that passes validation, a configured key and a successful reply
  of the gateway. When the content of the reply is missing, holds no text from a
  \<open>[\<close> to a later \<open>]\<close>, or holds one that \<open>JSON.parse\<close> rejects, and the insert
  succeeds, the rows added to \<open>video_segments\<close> are exactly the four rows made from the
  fallback segments, with \<open>timestamp_seconds\<close> 0, 30, 60 and 120; when the update
  succeeds too, the response is the success response with \<open>segmentsCreated = 4\<close>.
\<close>

theorem analyze_fallback_inserted:
  assumes "method req \<noteq> ''OPTIONS''"
    and "json req = Inr b"
    and "truthy_str (videoId b)" and "truthy_str (videoUrl b)"
    and "truthy_str (LOVABLE_API_KEY e)"
    and "gateway e = HttpReply st (Inr content)" and "response_ok st"
    and "content = None \<or> (\<exists>c. content = Some c \<and> (match_between (CHR ''['') (CHR '']'') c = None \<or>
            (\<exists>m. match_between (CHR ''['') (CHR '']'') c = Some m \<and> JSON_parse m = None)))"
    and "insert_error e = None"
  shows "video_segments (snd (analyze_video e JSON_parse db req)) =
           video_segments db @
           zip (map (gen_random_uuid e) [0 ..< 4])
               (segmentRecords (or_str (videoId b) '''') (random e) (fallback_segments (request_json.title b))) \<and>
         map segment_record.timestamp_seconds
           (segmentRecords (or_str (videoId b) '''') (random e) (fallback_segments (request_json.title b))) =
           [0, 30, 60, 120] \<and>
         (update_error e = None \<longrightarrow>
            fst (analyze_video e JSON_parse db req) = \<lparr>status = 200, body = Success 4\<rparr>)"
proof -
  have p: "parse_segments JSON_parse (request_json.title b) content = fallback_segments (request_json.title b)"
    using assms(8) by (rule parse_segments_fallback)
  show ?thesis
    using assms(1,9)
    by (simp add: analyze_video_def analyze_try_reply [OF assms(2-7)] p Let_def fallback_timestamps
          fallback_length insert_segments_def update_video_def split: option.splits)
qed

text \<open>
  The reply "I cannot help" with a parser that rejects everything, on the video "Demo".
\<close>

theorem analyze_fallback_inserted_witness:
  "video_segments (snd (analyze_video (demo_env (Some ''key'') (HttpReply 200 (Inr (Some ''I cannot help''))))
        JSON_parse_throws demo_db analyze_request)) =
     video_segments demo_db @
     zip (map (gen_random_uuid (demo_env (Some ''key'') (HttpReply 200 (Inr (Some ''I cannot help''))))) [0 ..< 4])
         (segmentRecords ''v1'' half (fallback_segments (Some ''Demo''))) \<and>
   map segment_record.timestamp_seconds
     (segmentRecords ''v1'' half (fallback_segments (Some ''Demo''))) = [0, 30, 60, 120] \<and>
   fst (analyze_video (demo_env (Some ''key'') (HttpReply 200 (Inr (Some ''I cannot help''))))
        JSON_parse_throws demo_db analyze_request) = \<lparr>status = 200, body = Success 4\<rparr>"
proof -
  have m: "match_between (CHR ''['') (CHR '']'') ''I cannot help'' = None"
    by (simp add: match_between_def)
  show ?thesis
    using analyze_fallback_inserted [of analyze_request _ "demo_env (Some ''key'') (HttpReply 200 (Inr (Some ''I cannot help'')))"
        200 "Some ''I cannot help''" JSON_parse_throws demo_db]
    by (simp add: analyze_request_def post_simps demo_env_simps truthy_str_def response_ok_def m or_str_def)
qed

text \<open>
  C2. The duration written with \<open>status = "ready"\<close> is the maximum of
  \<open>s.timestamp_seconds || 0\<close> over the parsed segments plus 30, while the inserted rows
  carry \<open>seg.timestamp_seconds || index * 30\<close>. On the reply \<open>[{},{}]\<close> the run
  succeeds and inserts rows with timestamps 0 and 30, and the video gets the duration
  30, not the maximum inserted timestamp plus 30, which is 60.
\<close>

theorem analyze_duration_below_inserted:
  "map segment_record.timestamp_seconds
     (map snd (video_segments (snd (analyze_video
        (demo_env (Some ''key'') (HttpReply 200 (Inr (Some ''[{},{}]''))))
        parse_two_objects demo_db analyze_request)))) = [0, 30] \<and>
   map video.status
     (videos (snd (analyze_video
        (demo_env (Some ''key'') (HttpReply 200 (Inr (Some ''[{},{}]''))))
        parse_two_objects demo_db analyze_request))) = [''ready''] \<and>
   map duration_seconds
     (videos (snd (analyze_video
        (demo_env (Some ''key'') (HttpReply 200 (Inr (Some ''[{},{}]''))))
        parse_two_objects demo_db analyze_request))) = [Some 30] \<and>
   fst (analyze_video
        (demo_env (Some ''key'') (HttpReply 200 (Inr (Some ''[{},{}]''))))
        parse_two_objects demo_db analyze_request) = \<lparr>status = 200, body = Success 2\<rparr>"
  by code_simp

lemma segmentRecords_nth:
  "i < length segments \<Longrightarrow>
   segmentRecords vid rnd segments ! i = segment_record_of vid rnd i (segments ! i)"
  by (simp add: segmentRecords_def nth_enumerate_eq)

text \<open>
  C10. For a parsed segment at index \<open>i\<close> whose \<open>timestamp_seconds\<close> is 0 or absent,
  the row to insert has \<open>timestamp_seconds = i * 30\<close> (and the display string of that
  value): for \<open>i > 0\<close> this is not 0, and only at index 0 does a zero stay a zero.
\<close>

theorem zero_timestamp_replaced:
  assumes "i < length segments"
    and "segment.timestamp_seconds (segments ! i) = None \<or>
         segment.timestamp_seconds (segments ! i) = Some 0"
  shows "segment_record.timestamp_seconds (segmentRecords vid rnd segments ! i) = int i * 30 \<and>
         segment_record.timestamp_display (segmentRecords vid rnd segments ! i) =
           formatTimestamp (int i * 30) \<and>
         (0 < i \<longrightarrow> segment_record.timestamp_seconds (segmentRecords vid rnd segments ! i) \<noteq> 0) \<and>
         (i = 0 \<longrightarrow> segment_record.timestamp_seconds (segmentRecords vid rnd segments ! i) = 0)"
  using assms by (auto simp: segmentRecords_nth segment_record_of_def or_num_def)

text \<open>
  Two segments that both say \<open>timestamp_seconds: 0\<close> are inserted at 0 and 30.
\<close>

theorem zero_timestamp_replaced_witness:
  "map segment_record.timestamp_seconds
     (segmentRecords ''v1'' half
        (replicate 2 \<lparr>segment.timestamp_seconds = Some 0, segment.description = Some ''Intro'',
           segment.ocr_text = None, segment.detected_objects = None,
           segment.transcript = None\<rparr>)) = [0, 30]"
proof -
  let ?segs = "replicate 2 \<lparr>segment.timestamp_seconds = Some 0, segment.description = Some ''Intro'',
           segment.ocr_text = None, segment.detected_objects = None,
           segment.transcript = None\<rparr>"
  have l: "length (segmentRecords ''v1'' half ?segs) = 2"
    by (simp add: segmentRecords_def)
  have "segment_record.timestamp_seconds (segmentRecords ''v1'' half ?segs ! 0) = 0"
    using zero_timestamp_replaced [of 0 ?segs "''v1''" half] by simp
  moreover have "segment_record.timestamp_seconds (segmentRecords ''v1'' half ?segs ! 1) = 30"
    using zero_timestamp_replaced [of 1 ?segs "''v1''" half] by simp
  ultimately show ?thesis
    using l by (simp add: list_eq_iff_nth_eq less_Suc_eq numeral_2_eq_2)
qed

section \<open>Errors before the gateway is called\<close>

text \<open>
  C6, as stated, fails: the fields are checked before the key is read, so without a
  key a request that omits \<open>videoId\<close> is answered with the message of the field check.
\<close>

theorem missing_key_counterexample:
  "LOVABLE_API_KEY (demo_env None (HttpReply 200 (Inr None))) = None \<and>
   fst (analyze_video (demo_env None (HttpReply 200 (Inr None))) JSON_parse_throws demo_db empty_request) =
     \<lparr>status = 500, body = Error ''Missing videoId or videoUrl''\<rparr> \<and>
   body (fst (analyze_video (demo_env None (HttpReply 200 (Inr None))) JSON_parse_throws demo_db empty_request)) \<noteq>
     Error ''LOVABLE_API_KEY is not configured''"
  by (simp add: analyze_video_def analyze_try_def empty_request_def post_simps demo_env_simps truthy_str_def)

text \<open>
  C6, amended. When \<open>LOVABLE_API_KEY\<close> is absent, no run of analyze-video writes to
  the database, and every request other than the preflight that carries a \<open>videoId\<close>
  and a \<open>videoUrl\<close> is answered with status 500 and the message
  "LOVABLE_API_KEY is not configured".
\<close>

theorem missing_key_rejected:
  assumes "LOVABLE_API_KEY e = None"
  shows "snd (analyze_video e JSON_parse db req) = db \<and>
         (method req \<noteq> ''OPTIONS'' \<and> json req = Inr b \<and>
          truthy_str (videoId b) \<and> truthy_str (videoUrl b) \<longrightarrow>
            fst (analyze_video e JSON_parse db req) =
              \<lparr>status = 500, body = Error ''LOVABLE_API_KEY is not configured''\<rparr>)"
  using assms
  by (auto simp: analyze_video_def analyze_try_def truthy_str_def split: sum.splits)

text \<open>
  The request for the video "Demo" without a key: the database is returned as it was,
  so the video keeps its status "processing".
\<close>

theorem missing_key_rejected_witness:
  "analyze_video (demo_env None (HttpReply 200 (Inr None))) JSON_parse_throws demo_db analyze_request =
     (\<lparr>status = 500, body = Error ''LOVABLE_API_KEY is not configured''\<rparr>, demo_db)"
  using missing_key_rejected [of "demo_env None (HttpReply 200 (Inr None))" JSON_parse_throws demo_db
      analyze_request "\<lparr>videoId = Some ''v1'', videoUrl = Some ''https://host/demo.mp4'',
           request_json.title = Some ''Demo'', query = None,
           request_json.question = None, filters = None\<rparr>"]
  by (simp add: demo_env_simps analyze_request_def post_simps truthy_str_def prod_eq_iff)

text \<open>
  C7. A request whose body is read (any method but the \<open>OPTIONS\<close> preflight, which
  is answered before the body is looked at) and that omits \<open>videoId\<close> or \<open>videoUrl\<close>
  for analyze-video, \<open>query\<close> for search-videos, \<open>question\<close> or \<open>videoId\<close> for video-qa,
  is answered with status 500 and an \<open>{error}\<close> body, never 400; nothing is written.
\<close>

theorem missing_field_is_500:
  assumes "method req \<noteq> ''OPTIONS''" and "json req = Inr b"
  shows "(videoId b = None \<or> videoUrl b = None \<longrightarrow>
            analyze_video e parse_a db req =
              (\<lparr>status = 500, body = Error ''Missing videoId or videoUrl''\<rparr>, db)) \<and>
         (query b = None \<longrightarrow>
            search_videos e parse_s db req =
              \<lparr>status = 500, body = Error ''Missing search query''\<rparr>) \<and>
         (request_json.question b = None \<or> videoId b = None \<longrightarrow>
            video_qa e parse_q db req =
              (\<lparr>status = 500, body = Error ''Missing question or videoId''\<rparr>, db))"
  using assms
  by (auto simp: analyze_video_def analyze_try_def search_videos_def search_try_def
      video_qa_def qa_try_def truthy_str_def)

text \<open>
  A request with an empty JSON object, sent to each of the three handlers.
\<close>

theorem missing_field_is_500_witness:
  "analyze_video (demo_env (Some ''key'') (HttpReply 200 (Inr None))) JSON_parse_throws demo_db empty_request =
     (\<lparr>status = 500, body = Error ''Missing videoId or videoUrl''\<rparr>, demo_db) \<and>
   search_videos (demo_env (Some ''key'') (HttpReply 200 (Inr None))) JSON_parse_throws demo_db empty_request =
     \<lparr>status = 500, body = Error ''Missing search query''\<rparr> \<and>
   video_qa (demo_env (Some ''key'') (HttpReply 200 (Inr None))) JSON_parse_throws demo_db empty_request =
     (\<lparr>status = 500, body = Error ''Missing question or videoId''\<rparr>, demo_db)"
  using missing_field_is_500 [of empty_request
      "\<lparr>videoId = None, videoUrl = None, request_json.title = None,
           query = None, request_json.question = None, filters = None\<rparr>"
      "demo_env (Some ''key'') (HttpReply 200 (Inr None))" JSON_parse_throws demo_db JSON_parse_throws JSON_parse_throws]
  by (simp add: empty_request_def post_simps)

section \<open>search-videos: failures of the gateway\<close>

text \<open>
  C8, as stated, fails: a failure of the gateway other than 429 and 402 is thrown, and
  the \<open>catch\<close> block answers with status 500, not with the gateway's status 503.
\<close>

theorem gateway_other_failure_counterexample:
  "\<not> response_ok 503 \<and>
   search_videos (demo_env (Some ''key'') (HttpReply 503 (Inl ''''))) JSON_parse_throws street_db (search_request None) =
     \<lparr>status = 500, body = Error ''AI gateway error: 503''\<rparr>"
  by code_simp

lemma search_try_gateway:
  assumes "json req = Inr b" and "truthy_str (query b)" and "truthy_str (LOVABLE_API_KEY e)"
    and "select_error e = None" and "select_segments db (videoId b) \<noteq> []"
    and "gateway e = HttpReply st payload"
  shows "search_try e JSON_parse db req =
     (if \<not> response_ok st then
        (if st = 429 then
           Inr \<lparr>status = 429, body = Error ''Rate limited. Please try again later.''\<rparr>
         else if st = 402 then
           Inr \<lparr>status = 402, body = Error ''Payment required. Please add funds.''\<rparr>
         else Inl (''AI gateway error: '' @ toString (int st)))
      else
        (case payload of
           Inl msg \<Rightarrow> Inl msg
         | Inr rankingContent \<Rightarrow>
             (case apply_object_filter (filters b) (select_segments db (videoId b))
                     (parse_rankings JSON_parse (or_str (query b) '''')
                        (select_segments db (videoId b)) rankingContent) of
                Inl msg \<Rightarrow> Inl msg
              | Inr rankings' \<Rightarrow>
                  (case build_results (select_segments db (videoId b)) rankings' of
                     Inl msg \<Rightarrow> Inl msg
                   | Inr results \<Rightarrow> Inr \<lparr>status = 200, body = Results results\<rparr>))))"
  using assms by (simp add: search_try_def Let_def split: sum.splits)

text \<open>
  C8, amended. When the gateway's response is not ok, search-videos answers with the
  gateway's status for 429 and for 402, each with its own message, without throwing;
  for every other status it throws, and the response has status 500 and the message
  "AI gateway error: " followed by the gateway's status.
\<close>

theorem gateway_failure_status:
  assumes "method req \<noteq> ''OPTIONS''"
    and "json req = Inr b" and "truthy_str (query b)" and "truthy_str (LOVABLE_API_KEY e)"
    and "select_error e = None" and "select_segments db (videoId b) \<noteq> []"
    and "gateway e = HttpReply st payload" and "\<not> response_ok st"
  shows "search_videos e JSON_parse db req =
     (if st = 429 then \<lparr>status = 429, body = Error ''Rate limited. Please try again later.''\<rparr>
      else if st = 402 then \<lparr>status = 402, body = Error ''Payment required. Please add funds.''\<rparr>
      else \<lparr>status = 500, body = Error (''AI gateway error: '' @ toString (int st))\<rparr>)"
  using assms(1,8)
  by (simp add: search_videos_def search_try_gateway [OF assms(2-7)])

lemma street_rows: "select_segments street_db None \<noteq> []"
  by code_simp

text \<open>
  A rate-limited gateway on a search over the ready video.
\<close>

theorem gateway_failure_status_witness:
  "search_videos (demo_env (Some ''key'') (HttpReply 429 (Inl ''''))) JSON_parse_throws street_db (search_request None) =
     \<lparr>status = 429, body = Error ''Rate limited. Please try again later.''\<rparr>"
  using gateway_failure_status [of "search_request None" _ "demo_env (Some ''key'') (HttpReply 429 (Inl ''''))"
     street_db 429 "Inl ''''" JSON_parse_throws] street_rows
  by (simp add: search_request_def post_simps demo_env_simps truthy_str_def response_ok_def)

section \<open>video-qa: replies without a JSON object\<close>

lemma parse_answer_raw:
  assumes "match_between (CHR ''{'') (CHR ''}'') content = None \<or>
     (\<exists>m. match_between (CHR ''{'') (CHR ''}'') content = Some m \<and> JSON_parse m = None)"
  shows "parse_answer JSON_parse content = (content, [])"
  using assms by (auto simp: parse_answer_def)

text \<open>
  C9. Take a request that passes validation, a configured key, a video that is found,
  segments that are fetched and a successful reply of the gateway. When the content
  (the empty string when it is missing) holds no text from a \<open>{\<close> to a later \<open>}\<close>, or
  holds one that \<open>JSON.parse\<close> rejects, the response has status 200, the content itself
  as \<open>answer\<close> and an empty \<open>relevant_timestamps\<close>.
\<close>

theorem qa_raw_reply_is_answer:
  assumes "method req \<noteq> ''OPTIONS''"
    and "json req = Inr b"
    and "truthy_str (request_json.question b)" and "truthy_str (videoId b)"
    and "truthy_str (LOVABLE_API_KEY e)"
    and "select_video e db (or_str (videoId b) '''') = Some v"
    and "select_error e = None"
    and "gateway e = HttpReply st (Inr c)" and "response_ok st"
    and "match_between (CHR ''{'') (CHR ''}'') (or_str c '''') = None \<or>
         (\<exists>m. match_between (CHR ''{'') (CHR ''}'') (or_str c '''') = Some m \<and> JSON_parse m = None)"
  shows "fst (video_qa e JSON_parse db req) = \<lparr>status = 200, body = Answer (or_str c '''') []\<rparr>"
  using assms(1-9)
  by (simp add: video_qa_def qa_try_def Let_def parse_answer_raw [OF assms(10)])

text \<open>
  A plain sentence as the reply.
\<close>

theorem qa_raw_reply_is_answer_witness:
  "fst (video_qa (demo_env (Some ''key'') (HttpReply 200 (Inr (Some ''A person waits.''))))
         JSON_parse_throws street_db qa_request) =
     \<lparr>status = 200, body = Answer ''A person waits.'' []\<rparr>"
proof -
  have v: "select_video (demo_env (Some ''key'') (HttpReply 200 (Inr (Some ''A person waits.'')))) street_db ''v2'' =
      Some (hd (videos street_db))"
    by code_simp
  have m: "match_between (CHR ''{'') (CHR ''}'') ''A person waits.'' = None"
    by (simp add: match_between_def)
  show ?thesis
    using qa_raw_reply_is_answer [of qa_request _ "demo_env (Some ''key'') (HttpReply 200 (Inr (Some ''A person waits.'')))"
      street_db "hd (videos street_db)" 200 "Some ''A person waits.''" JSON_parse_throws] v m
    by (simp add: qa_request_def post_simps demo_env_simps truthy_str_def response_ok_def or_str_def)
qed

section \<open>search-videos: rankings\<close>

text \<open>
  C4. The fallback scorer runs in the \<open>catch\<close> block only. A reply with no text from a
  \<open>[\<close> to a later \<open>]\<close> throws nothing (the \<open>if (jsonMatch)\<close> has no \<open>else\<close>, unlike the
  one of analyze-video), so the rankings stay empty: on the query "person" and the reply
  "I cannot rank these" the results are empty, while the fallback scorer ranks the row
  that mentions a person with score 1.
\<close>

theorem search_no_array_skips_fallback:
  "match_between (CHR ''['') (CHR '']'') ''I cannot rank these'' = None \<and>
   search_videos (demo_env (Some ''key'') (HttpReply 200 (Inr (Some ''I cannot rank these''))))
      JSON_parse_throws street_db (search_request None) = \<lparr>status = 200, body = Results []\<rparr> \<and>
   fallback_rankings ''person'' (select_segments street_db None) =
     [\<lparr>index = 0, ranking.relevance_score = 1, reason = ''Keyword matching fallback''\<rparr>]"
  by code_simp

text \<open>
  Where the fallback scorer does run, and what it returns: a missing content and a
  text that \<open>JSON.parse\<close> rejects reach it; its rankings are at most 10, all score above
  0.3, and they are sorted by descending score.
\<close>

lemma parse_rankings_fallback:
  assumes "content = None \<or>
     (\<exists>c m. content = Some c \<and> match_between (CHR ''['') (CHR '']'') c = Some m \<and> JSON_parse m = None)"
  shows "parse_rankings JSON_parse q segments content = fallback_rankings q segments"
  using assms by (auto simp: parse_rankings_def)

lemma parse_rankings_no_array:
  "match_between (CHR ''['') (CHR '']'') c = None \<Longrightarrow>
   parse_rankings JSON_parse q segments (Some c) = []"
  by (simp add: parse_rankings_def)

lemma fallback_rankings_bounds:
  "length (fallback_rankings q segments) \<le> 10 \<and>
   (\<forall>r \<in> set (fallback_rankings q segments). 3 / 10 < ranking.relevance_score r) \<and>
   sorted (map (\<lambda>r. - ranking.relevance_score r) (fallback_rankings q segments))"
proof -
  have "set (fallback_rankings q segments) \<subseteq>
      set (filter (\<lambda>r. 3 / 10 < ranking.relevance_score r)
             (map (\<lambda>(idx, seg). fallback_ranking q idx seg) (enumerate 0 segments)))"
    unfolding fallback_rankings_def using set_take_subset by fastforce
  then have "\<forall>r \<in> set (fallback_rankings q segments). 3 / 10 < ranking.relevance_score r"
    by auto
  moreover have "sorted (map (\<lambda>r. - ranking.relevance_score r) (fallback_rankings q segments))"
    unfolding fallback_rankings_def by (simp add: take_map [symmetric] sorted_wrt_take)
  moreover have "length (fallback_rankings q segments) \<le> 10"
    by (simp add: fallback_rankings_def)
  ultimately show ?thesis
    by blast
qed

text \<open>
  C5, as stated, fails: the threshold is \<open>filters.minCount || 1\<close>, so with
  \<open>minCount = 0\<close> a row without any car is removed although its count, 0, is at least
  \<open>minCount\<close>.
\<close>

theorem object_filter_zero_counterexample:
  "apply_object_filter (Some \<lparr>objectName = Some ''car'', minCount = Some 0\<rparr>)
      (select_segments street_db None)
      [\<lparr>index = 2, ranking.relevance_score = 1, reason = ''empty street''\<rparr>] = Inr [] \<and>
   object_count (select_segments street_db None ! 2) ''car'' = Some 0 \<and>
   num_ge (object_count (select_segments street_db None ! 2) ''car'') 0"
  by code_simp

lemma filter_rankings_valid:
  assumes "\<forall>r \<in> set rankings. 0 \<le> index r \<and> index r < int (length segments)"
  shows "filter_rankings name minc segments rankings =
     Inr (filter (\<lambda>r. num_ge (object_count (segments ! nat (index r)) name) (or_num minc 1)) rankings)"
  using assms by (induction rankings) (simp_all add: array_get_def)

lemma own_count:
  "name \<notin> set Object_prototype_names \<Longrightarrow>
   num_ge (object_count seg name) m =
     (m \<le> (case map_of (segment_record.detected_objects (snd (fst seg))) name of
               None \<Rightarrow> 0 | Some n \<Rightarrow> n))"
  by (simp add: num_ge_def object_count_def or_num_def split: option.splits)

text \<open>
  A name that the row has no entry for but every object inherits, such as
  \<open>constructor\<close>, removes the ranking whatever the threshold is.
\<close>

lemma inherited_count:
  "name \<in> set Object_prototype_names \<Longrightarrow>
   map_of (segment_record.detected_objects (snd (fst seg))) name = None \<Longrightarrow>
   \<not> num_ge (object_count seg name) m"
  by (simp add: num_ge_def object_count_def)

lemma inherited_name_removed:
  "apply_object_filter (Some \<lparr>objectName = Some ''constructor'', minCount = Some (- 1)\<rparr>)
      (select_segments street_db None)
      [\<lparr>index = 0, ranking.relevance_score = 1, reason = ''a''\<rparr>] = Inr []"
  by code_simp

text \<open>
  C5, amended. With a non-empty \<open>objectName\<close> that is not the name of a property
  inherited from \<open>Object.prototype\<close>, and rankings whose indices address fetched rows, a
  ranking survives the object filter iff the count of the named object in its row (its
  entry in \<open>detected_objects\<close>, 0 when there is none) is at least the threshold, which is
  \<open>minCount\<close> when that is given and not 0, and 1 otherwise.
\<close>

theorem object_filter_threshold:
  assumes "objectName f = Some name" and "name \<noteq> []"
    and "name \<notin> set Object_prototype_names"
    and "\<forall>r \<in> set rankings. 0 \<le> index r \<and> index r < int (length segments)"
  shows "apply_object_filter (Some f) segments rankings =
     Inr (filter (\<lambda>r. (case minCount f of None \<Rightarrow> 1 | Some m \<Rightarrow> if m = 0 then 1 else m)
                        \<le> (case map_of (segment_record.detected_objects
                                          (snd (fst (segments ! nat (index r))))) name of
                              None \<Rightarrow> 0 | Some n \<Rightarrow> n)) rankings)"
  using assms(1,2)
  by (simp add: apply_object_filter_def truthy_str_def or_str_def filter_rankings_valid [OF assms(4)]
      own_count [OF assms(3)] or_num_def)

text \<open>
  With \<open>objectName = "car"\<close> and \<open>minCount = 2\<close>, the row with one car is removed and
  the row with two cars is kept.
\<close>

theorem object_filter_threshold_witness:
  "map_of (segment_record.detected_objects (snd (fst (select_segments street_db None ! 0)))) ''car'' = Some 1 \<and>
   map_of (segment_record.detected_objects (snd (fst (select_segments street_db None ! 1)))) ''car'' = Some 2 \<and>
   apply_object_filter (Some \<lparr>objectName = Some ''car'', minCount = Some 2\<rparr>)
      (select_segments street_db None)
      [\<lparr>index = 0, ranking.relevance_score = 1, reason = ''a''\<rparr>,
       \<lparr>index = 1, ranking.relevance_score = 1 / 2, reason = ''b''\<rparr>] =
     Inr [\<lparr>index = 1, ranking.relevance_score = 1 / 2, reason = ''b''\<rparr>]"
proof -
  have l: "length (select_segments street_db None) = 3"
    by code_simp
  have n: "map_of (segment_record.detected_objects (snd (fst (select_segments street_db None ! 0)))) ''car'' = Some 1"
      "map_of (segment_record.detected_objects (snd (fst (select_segments street_db None ! 1)))) ''car'' = Some 2"
    by code_simp+
  have c: "''car'' \<notin> set Object_prototype_names"
    by (simp add: Object_prototype_names_def)
  show ?thesis
    using object_filter_threshold [of "\<lparr>objectName = Some ''car'', minCount = Some 2\<rparr>" "''car''"
      "[\<lparr>index = 0, ranking.relevance_score = 1, reason = ''a''\<rparr>,
        \<lparr>index = 1, ranking.relevance_score = 1 / 2, reason = ''b''\<rparr>]"
      "select_segments street_db None"] l n c
    by simp
qed

end
